theory Spec2Isabelle
  imports Complex_Main "HOL-Library.AList"
begin

section \<open>Values, the store and the outside world\<close>

text \<open>
  The plugin (src/plugin.go) works on Go's dynamically typed values: parameter bags and
  results are \<^verbatim>\<open>map[string]interface{}\<close>, the hops are a
  \<^verbatim>\<open>[]map[string]interface{}\<close>. Maps and slices are references in Go, so a value
  that is a map or a slice is an address into a store of objects; copying the value copies
  the address, not the object.
\<close>

type_synonym addr = nat

text \<open>A \<^verbatim>\<open>float64\<close>: a finite value (kept as the rational it denotes) or one of the
  special values.\<close>

datatype float64 = Finite rat | PosInf | NegInf | NaN

datatype val =
    VNil
  | VStr string
  | VInt int
  | VFloat float64
  | VBool bool
  | VMap addr    \<comment> \<open>a \<^verbatim>\<open>map[string]interface{}\<close>\<close>
  | VMaps addr   \<comment> \<open>a \<^verbatim>\<open>[]map[string]interface{}\<close>, by its backing array\<close>
  | VSlice addr  \<comment> \<open>a \<^verbatim>\<open>[]interface{}\<close>, by its backing array\<close>

type_synonym gomap = "(string \<times> val) list"

datatype obj = MapObj gomap | ArrObj "val list"

text \<open>
  The world threaded through the code: the store, a count of the external calls made so
  far (every call to the outside may answer differently from the one before), and the
  command lines executed so far, oldest first.
\<close>

record world =
  heap :: "obj list"
  tick :: nat
  cmds :: "string list list"

text \<open>What \<^verbatim>\<open>cmd.Run()\<close> leaves behind: the error (if any, as its message), and the
  two buffers.\<close>

record cmd_result =
  cmd_err :: "string option"
  cmd_stdout :: string
  cmd_stderr :: string

text \<open>
  The outcome of \<^verbatim>\<open>strconv.ParseFloat(s, 64)\<close>: no error, \<^verbatim>\<open>ErrSyntax\<close>, or
  \<^verbatim>\<open>ErrRange\<close> with the sign of the number. The library fixes the value that comes
  with each outcome: the nearest \<^verbatim>\<open>float64\<close> with no error, 0 with a syntax error,
  and plus or minus infinity with a range error. The caller here keeps the value and drops
  the error.
\<close>

datatype pf_result = Parsed float64 | SyntaxErr | RangeErr bool

fun pf_value :: "pf_result \<Rightarrow> float64" where
  "pf_value (Parsed f) = f"
| "pf_value SyntaxErr = Finite 0"
| "pf_value (RangeErr neg) = (if neg then NegInf else PosInf)"

text \<open>
  The collaborators outside the repository, as parameters: the process runner, the
  resolver and the clock answer by the number of external calls made before; the
  formatting and parsing routines of the standard library that are not modelled here are
  functions of their argument. \<open>int_impl\<close> is the result of converting to \<^verbatim>\<open>int\<close>
  a \<^verbatim>\<open>float64\<close> that \<^verbatim>\<open>int\<close> cannot represent, which Go leaves to the
  implementation.
\<close>

record env =
  exec_Run :: "nat \<Rightarrow> string list \<Rightarrow> cmd_result"
  net_LookupAddr :: "nat \<Rightarrow> string \<Rightarrow> string list option"
  time_Now :: "nat \<Rightarrow> int"
  time_Format :: "int \<Rightarrow> string"
  duration_String :: "int \<Rightarrow> string"
  strconv_ParseFloat :: "string \<Rightarrow> pf_result"
  int_impl :: "float64 \<Rightarrow> int"

datatype error = Errorf string | Panic string

subsection \<open>Store operations\<close>

definition alloc :: "obj \<Rightarrow> world \<Rightarrow> addr \<times> world" where
  "alloc ob w = (length (heap w), w\<lparr>heap := heap w @ [ob]\<rparr>)"

text \<open>Reading through a reference. A reference with no map behind it reads as the nil map,
  one with no array behind it as the nil slice.\<close>

definition mapAt :: "world \<Rightarrow> addr \<Rightarrow> gomap" where
  "mapAt w a =
     (if a < length (heap w) then (case heap w ! a of MapObj m \<Rightarrow> m | ArrObj vs \<Rightarrow> []) else [])"

definition arrAt :: "world \<Rightarrow> addr \<Rightarrow> val list" where
  "arrAt w a =
     (if a < length (heap w) then (case heap w ! a of ArrObj vs \<Rightarrow> vs | MapObj m \<Rightarrow> []) else [])"

text \<open>\<^verbatim>\<open>m[k] = v\<close> on the map at an address: every holder of the address sees it.\<close>

definition mapSet :: "addr \<Rightarrow> string \<Rightarrow> val \<Rightarrow> world \<Rightarrow> world" where
  "mapSet a k v w =
     (if a < length (heap w) then
        (case heap w ! a of
           MapObj m \<Rightarrow> w\<lparr>heap := (heap w)[a := MapObj (AList.update k v m)]\<rparr>
         | ArrObj vs \<Rightarrow> w)
      else w)"

text \<open>The map a value denotes in the store, when the value is a map.\<close>

fun asMap :: "world \<Rightarrow> val \<Rightarrow> gomap" where
  "asMap w (VMap a) = mapAt w a"
| "asMap w v = []"

subsection \<open>Type assertions\<close>

text \<open>The type assertion \<^verbatim>\<open>x.(T)\<close> in its two-valued form, on what a map lookup
  gives: \<open>None\<close> is \<^verbatim>\<open>ok == false\<close>, which is also what a missing key (the nil
  interface) gives.\<close>

fun assert_string :: "val option \<Rightarrow> string option" where
  "assert_string (Some (VStr s)) = Some s"
| "assert_string x = None"

fun assert_float64 :: "val option \<Rightarrow> float64 option" where
  "assert_float64 (Some (VFloat f)) = Some f"
| "assert_float64 x = None"

fun assert_bool :: "val option \<Rightarrow> bool option" where
  "assert_bool (Some (VBool b)) = Some b"
| "assert_bool x = None"

fun assert_map :: "val option \<Rightarrow> addr option" where
  "assert_map (Some (VMap a)) = Some a"
| "assert_map x = None"

fun assert_maps :: "val option \<Rightarrow> addr option" where
  "assert_maps (Some (VMaps a)) = Some a"
| "assert_maps x = None"

subsection \<open>External calls\<close>

text \<open>\<^verbatim>\<open>err.Error()\<close> as \<^verbatim>\<open>%v\<close> prints it; a nil error prints as
  \<^verbatim>\<open><nil>\<close>.\<close>

definition err_Error :: "string option \<Rightarrow> string" where
  "err_Error err = (case err of Some msg \<Rightarrow> msg | None \<Rightarrow> ''<nil>'')"

definition cmd_Run :: "env \<Rightarrow> string list \<Rightarrow> world \<Rightarrow> cmd_result \<times> world" where
  "cmd_Run E argv w =
     (exec_Run E (tick w) argv, w\<lparr>tick := Suc (tick w), cmds := cmds w @ [argv]\<rparr>)"

definition lookupAddr :: "env \<Rightarrow> string \<Rightarrow> world \<Rightarrow> string list option \<times> world" where
  "lookupAddr E ip w = (net_LookupAddr E (tick w) ip, w\<lparr>tick := Suc (tick w)\<rparr>)"

definition now :: "env \<Rightarrow> world \<Rightarrow> int \<times> world" where
  "now E w = (time_Now E (tick w), w\<lparr>tick := Suc (tick w)\<rparr>)"

section \<open>The library routines the parser uses\<close>

text \<open>\<^verbatim>\<open>strings.Split(s, "\n")\<close>: the pieces between line feeds; never empty.\<close>

fun strings_Split :: "string \<Rightarrow> string list" where
  "strings_Split [] = [[]]"
| "strings_Split (c # s) =
     (if c = CHR 0x0A then [] # strings_Split s
      else (case strings_Split s of
              [] \<Rightarrow> [[c]]
            | l # ls \<Rightarrow> (c # l) # ls))"

text \<open>
  \<^verbatim>\<open>unicode.IsSpace\<close> on the UTF-8 bytes of a string: the width in bytes of the white
  space character that starts the string, 0 when none does. The white space characters
  are U+0009 to U+000D, U+0020, U+0085, U+00A0, U+1680, U+2000 to U+200A, U+2028, U+2029,
  U+202F, U+205F and U+3000.
\<close>

definition spaceWidth :: "string \<Rightarrow> nat" where
  "spaceWidth s =
     (case map of_char s of
        [] \<Rightarrow> 0
      | b0 # r \<Rightarrow>
          if (9 \<le> b0 \<and> b0 \<le> 13) \<or> b0 = (32::nat) then 1
          else (case r of
                  [] \<Rightarrow> 0
                | b1 # r' \<Rightarrow>
                    if b0 = 0xC2 \<and> (b1 = 0x85 \<or> b1 = 0xA0) then 2
                    else (case r' of
                            [] \<Rightarrow> 0
                          | b2 # r'' \<Rightarrow>
                              if b0 = 0xE1 \<and> b1 = 0x9A \<and> b2 = 0x80 then 3
                              else if b0 = 0xE2 \<and> b1 = 0x80 \<and>
                                      ((0x80 \<le> b2 \<and> b2 \<le> 0x8A) \<or> b2 = 0xA8 \<or> b2 = 0xA9 \<or> b2 = 0xAF)
                                   then 3
                              else if b0 = 0xE2 \<and> b1 = 0x81 \<and> b2 = 0x9F then 3
                              else if b0 = 0xE3 \<and> b1 = 0x80 \<and> b2 = 0x80 then 3
                              else 0)))"

text \<open>
  \<^verbatim>\<open>strings.Fields\<close>: the maximal runs of characters that are not white space.
  \<open>skip\<close> counts the bytes still to pass of a white space character of several bytes,
  \<open>cur\<close> is the field being read.
\<close>

fun fields_go :: "nat \<Rightarrow> string \<Rightarrow> string \<Rightarrow> string list" where
  "fields_go skip cur [] = (if cur = [] then [] else [cur])"
| "fields_go skip cur (c # s) =
     (if 0 < skip then fields_go (skip - 1) cur s
      else if 0 < spaceWidth (c # s)
           then (if cur = [] then [] else [cur]) @ fields_go (spaceWidth (c # s) - 1) [] s
           else fields_go 0 (cur @ [c]) s)"

definition strings_Fields :: "string \<Rightarrow> string list" where
  "strings_Fields s = fields_go 0 [] s"

text \<open>\<^verbatim>\<open>strings.TrimSuffix\<close>.\<close>

definition strings_TrimSuffix :: "string \<Rightarrow> string \<Rightarrow> string" where
  "strings_TrimSuffix s suffix =
     (if length suffix \<le> length s \<and> drop (length s - length suffix) s = suffix
      then take (length s - length suffix) s else s)"

text \<open>
  \<^verbatim>\<open>strconv.Atoi\<close> with a 64-bit \<^verbatim>\<open>int\<close>: an optional sign, then one or more
  decimal digits and nothing else, and a value that fits. \<open>None\<close> is a non-nil error
  (the caller drops the number that comes with an error).
\<close>

definition isDigit :: "char \<Rightarrow> bool" where
  "isDigit c = (48 \<le> (of_char c :: nat) \<and> (of_char c :: nat) \<le> 57)"

definition digitsVal :: "string \<Rightarrow> int" where
  "digitsVal ds = foldl (\<lambda>n c. 10 * n + (of_char c - 48)) 0 ds"

definition strconv_Atoi :: "string \<Rightarrow> int option" where
  "strconv_Atoi s =
     (let neg = (s \<noteq> [] \<and> hd s = CHR ''-'');
          ds = (if s \<noteq> [] \<and> (hd s = CHR ''-'' \<or> hd s = CHR ''+'') then tl s else s)
      in if ds = [] \<or> \<not> list_all isDigit ds then None
         else let n = (if neg then - digitsVal ds else digitsVal ds)
              in if - (2 ^ 63) \<le> n \<and> n < 2 ^ 63 then Some n else None)"

text \<open>\<^verbatim>\<open>fmt.Sprintf("%d", n)\<close>.\<close>

fun digits_of_nat :: "nat \<Rightarrow> string" where
  "digits_of_nat n =
     (if n < 10 then [''0123456789'' ! n]
      else digits_of_nat (n div 10) @ [''0123456789'' ! (n mod 10)])"

declare digits_of_nat.simps [simp del]

definition Sprintf_d :: "int \<Rightarrow> string" where
  "Sprintf_d n = (if n < 0 then CHR ''-'' # digits_of_nat (nat (- n)) else digits_of_nat (nat n))"

text \<open>
  The conversion \<^verbatim>\<open>int(f)\<close> of a \<^verbatim>\<open>float64\<close>: the fraction is dropped (towards
  zero); a value that a 64-bit \<^verbatim>\<open>int\<close> cannot hold gives what the implementation
  gives.
\<close>

definition truncate_rat :: "rat \<Rightarrow> int" where
  "truncate_rat r = (if 0 \<le> r then \<lfloor>r\<rfloor> else \<lceil>r\<rceil>)"

definition float64_to_int :: "env \<Rightarrow> float64 \<Rightarrow> int" where
  "float64_to_int E f =
     (case f of
        Finite r \<Rightarrow>
          (if - (2 ^ 63) \<le> truncate_rat r \<and> truncate_rat r < 2 ^ 63 then truncate_rat r
           else int_impl E f)
      | PosInf \<Rightarrow> int_impl E f
      | NegInf \<Rightarrow> int_impl E f
      | NaN \<Rightarrow> int_impl E f)"

section \<open>The plugin\<close>

text \<open>The plugin instance (\<^verbatim>\<open>TraceroutePlugin\<close>). \<open>IterationCount\<close> is a 64-bit
  \<^verbatim>\<open>int\<close>; \<open>StartTime\<close> is an instant in nanoseconds.\<close>

record TraceroutePlugin =
  Results :: "val list"
  StartTime :: int
  IterationCount :: int

type_synonym params = "string \<Rightarrow> val option"

definition wrap64 :: "int \<Rightarrow> int" where
  "wrap64 n = (n + 2 ^ 63) mod 2 ^ 64 - 2 ^ 63"

text \<open>\<^verbatim>\<open>t.Sub(u)\<close>, which \<^verbatim>\<open>time.Since\<close> returns: the difference, kept within the
  range of a \<^verbatim>\<open>Duration\<close>.\<close>

definition time_Sub :: "int \<Rightarrow> int \<Rightarrow> int" where
  "time_Sub t u = max (- (2 ^ 63)) (min (2 ^ 63 - 1) (t - u))"


subsection \<open>One line of probe output (plugin.go, lines 166 to 212)\<close>

text \<open>The map literal of one hop.\<close>

definition hopMap :: "int \<Rightarrow> string \<Rightarrow> string \<Rightarrow> float64 \<Rightarrow> gomap" where
  "hopMap hopNumber hopIP hopName rtt =
     [(''hop'', VInt hopNumber),
      (''host'', VStr hopIP),
      (''name'', VStr hopName),
      (''rtt'', VFloat rtt),
      (''status'', VStr (if hopIP \<noteq> ''*'' then ''OK'' else ''NO RESPONSE''))]"

text \<open>
  The body of the loop over the lines, for a line that is neither the first nor empty:
  \<open>None\<close> where the source says \<^verbatim>\<open>continue\<close>, the hop's map otherwise. The only
  effect is the reverse lookup of the address.
\<close>

definition parseHopLine :: "env \<Rightarrow> string \<Rightarrow> world \<Rightarrow> gomap option \<times> world" where
  "parseHopLine E line w =
     (let parts = strings_Fields line in
      if length parts < 2 then (None, w)
      else
        (case strconv_Atoi (parts ! 0) of
           None \<Rightarrow> (None, w)
         | Some hopNumber \<Rightarrow>
             if 4 \<le> length parts \<and> parts ! 1 \<noteq> ''*'' then
               (let hopIP = parts ! 1 in
                case lookupAddr E hopIP w of
                  (addr, w1) \<Rightarrow>
                    (let hopName = (case addr of
                                      None \<Rightarrow> hopIP
                                    | Some [] \<Rightarrow> hopIP
                                    | Some (a # as) \<Rightarrow> strings_TrimSuffix a ''.'');
                         rttStr = strings_TrimSuffix (parts ! 2) ''ms'';
                         rtt = pf_value (strconv_ParseFloat E rttStr)
                     in (Some (hopMap hopNumber hopIP hopName rtt), w1)))
             else (Some (hopMap hopNumber ''*'' ''*'' (Finite 0)), w)))"

text \<open>The loop over the lines, with the index: the first line and empty lines are passed
  over; each hop's map is a new object of the store.\<close>

fun hopLoop :: "env \<Rightarrow> nat \<Rightarrow> string list \<Rightarrow> val list \<Rightarrow> world \<Rightarrow> val list \<times> world" where
  "hopLoop E i [] hops w = (hops, w)"
| "hopLoop E i (line # rest) hops w =
     (if i = 0 \<or> length line = 0 then hopLoop E (Suc i) rest hops w
      else
        (case parseHopLine E line w of
           (None, w1) \<Rightarrow> hopLoop E (Suc i) rest hops w1
         | (Some hop, w1) \<Rightarrow>
             (case alloc (MapObj hop) w1 of
                (a, w2) \<Rightarrow> hopLoop E (Suc i) rest (hops @ [VMap a]) w2)))"

subsection \<open>performTraceroute (plugin.go, lines 131 to 223)\<close>

text \<open>The method reads and writes nothing of the plugin instance, so the instance is not
  an argument here.\<close>

definition param_host :: "params \<Rightarrow> string" where
  "param_host ps = (case assert_string (ps ''host'') of Some host \<Rightarrow> host | None \<Rightarrow> [])"

definition param_maxHops :: "env \<Rightarrow> params \<Rightarrow> int" where
  "param_maxHops E ps =
     float64_to_int E (case assert_float64 (ps ''maxHops'') of
                         Some maxHopsParam \<Rightarrow> maxHopsParam
                       | None \<Rightarrow> Finite 30)"

definition command :: "int \<Rightarrow> string \<Rightarrow> string list" where
  "command maxHops host = [''traceroute'', ''-n'', ''-m'', Sprintf_d maxHops, host]"

definition performTraceroute :: "env \<Rightarrow> params \<Rightarrow> world \<Rightarrow> (error + val) \<times> world" where
  "performTraceroute E ps w =
     (let host = param_host ps;
          maxHops = param_maxHops E ps
      in if host = [] then (Inl (Errorf ''host parameter is required''), w)
         else
           (case cmd_Run E (command maxHops host) w of
              (res, w1) \<Rightarrow>
                if cmd_err res \<noteq> None \<and> 0 < length (cmd_stderr res)
                then (Inl (Errorf (''traceroute failed: '' @ err_Error (cmd_err res) @
                                   '': '' @ cmd_stderr res)), w1)
                else
                  (let output = cmd_stdout res;
                       lines = strings_Split output
                   in case hopLoop E 0 lines [] w1 of
                        (hops, w2) \<Rightarrow>
                          (case now E w2 of
                             (t, w3) \<Rightarrow>
                               (case alloc (ArrObj hops) w3 of
                                  (ha, w4) \<Rightarrow>
                                    (case alloc (MapObj [(''host'', VStr host),
                                                         (''hops'', VMaps ha),
                                                         (''timestamp'', VStr (time_Format E t)),
                                                         (''rawOutput'', VStr output)]) w4 of
                                       (ra, w5) \<Rightarrow> (Inr (VMap ra), w5)))))))"

subsection \<open>executeWithIteration (plugin.go, lines 43 to 128)\<close>

text \<open>The copy made for the history: a new map, filled key by key from the result's.\<close>

definition copyMap :: "gomap \<Rightarrow> gomap" where
  "copyMap resultMap = fold (\<lambda>(k, v) historyCopy. AList.update k v historyCopy) resultMap []"

text \<open>The address of the last hop (lines 68 to 75 and 100 to 110): its \<^verbatim>\<open>"ip"\<close> when
  that is a string, else its \<^verbatim>\<open>"host"\<close> when that is one, else the empty string.\<close>

definition lastHopIP :: "world \<Rightarrow> val list \<Rightarrow> string" where
  "lastHopIP w hops =
     (if 0 < length hops then
        (let m = asMap w (hops ! (length hops - 1)) in
         case assert_string (map_of m ''ip'') of
           Some ip \<Rightarrow> ip
         | None \<Rightarrow> (case assert_string (map_of m ''host'') of Some host \<Rightarrow> host | None \<Rightarrow> []))
      else [])"

definition iteration_summary :: "int \<Rightarrow> string \<Rightarrow> nat \<Rightarrow> string \<Rightarrow> string" where
  "iteration_summary n host hopCount lastHop =
     ''Iteration '' @ Sprintf_d n @ '': '' @ host @ '' - '' @ Sprintf_d (int hopCount) @
     '' hops, final: '' @ lastHop"

text \<open>Lines 66 to 89: the summary for the UI, when the result's hops are a slice of maps.\<close>

definition addIterationData :: "TraceroutePlugin \<Rightarrow> addr \<Rightarrow> string \<Rightarrow> world \<Rightarrow> world" where
  "addIterationData p r host w =
     (case assert_maps (map_of (mapAt w r) ''hops'') of
        Some ha \<Rightarrow>
          (let hops = arrAt w ha;
               hopCount = length hops
           in case alloc (MapObj [(''can_iterate'', VBool True),
                                  (''supports_iteration'', VBool True),
                                  (''iteration_summary'',
                                   VStr (iteration_summary (IterationCount p) host hopCount
                                           (lastHopIP w hops)))]) w of
                (d, w1) \<Rightarrow> mapSet r ''iteration_data'' (VMap d) w1)
      | None \<Rightarrow> w)"

text \<open>Lines 95 to 119, the body of the loop over the stored results: nothing for a stored
  value that is not a map, else the condensed entry. The two unchecked type assertions
  panic when the stored value is not a string.\<close>

definition historyEntry :: "nat \<Rightarrow> val \<Rightarrow> world \<Rightarrow> error + gomap option" where
  "historyEntry i res w =
     (case assert_map (Some res) of
        Some ra \<Rightarrow>
          (let resMap = mapAt w ra in
           case assert_string (map_of resMap ''host'') of
             Some host \<Rightarrow>
               (case assert_string (map_of resMap ''timestamp'') of
                  Some timestamp \<Rightarrow>
                    (let hops = (case assert_maps (map_of resMap ''hops'') of
                                   Some ha \<Rightarrow> arrAt w ha
                                 | None \<Rightarrow> [])
                     in Inr (Some [(''iteration'', VInt (int i + 1)),
                                   (''timestamp'', VStr timestamp),
                                   (''host'', VStr host),
                                   (''hopCount'', VInt (int (length hops))),
                                   (''lastHop'', VStr (lastHopIP w hops))]))
                | None \<Rightarrow> Inl (Panic ''interface conversion: timestamp is not a string''))
           | None \<Rightarrow> Inl (Panic ''interface conversion: host is not a string''))
      | None \<Rightarrow> Inr None)"

text \<open>Lines 93 to 122: the loop over the stored results, with the index.\<close>

fun historyLoop :: "nat \<Rightarrow> val list \<Rightarrow> val list \<Rightarrow> world \<Rightarrow> (error + val list) \<times> world" where
  "historyLoop i [] history w = (Inr history, w)"
| "historyLoop i (res # rest) history w =
     (case historyEntry i res w of
        Inl e \<Rightarrow> (Inl e, w)
      | Inr None \<Rightarrow> historyLoop (Suc i) rest history w
      | Inr (Some entry) \<Rightarrow>
          (case alloc (MapObj entry) w of
             (e, w1) \<Rightarrow> historyLoop (Suc i) rest (history @ [VMap e]) w1))"

text \<open>Lines 60 to 125: the metadata written into the result's own map, after the copy for
  the history has been stored.\<close>

definition annotate ::
    "env \<Rightarrow> TraceroutePlugin \<Rightarrow> val \<Rightarrow> addr \<Rightarrow> world \<Rightarrow> (error + val) \<times> world" where
  "annotate E p result r w =
     (let w1 = mapSet r ''iterationCount'' (VInt (IterationCount p)) w in
      case now E w1 of
        (t, w2) \<Rightarrow>
          (let w3 = mapSet r ''elapsedTime''
                      (VStr (duration_String E (time_Sub t (StartTime p)))) w2
           in case assert_string (map_of (mapAt w3 r) ''host'') of
                Some host \<Rightarrow>
                  (let w4 = addIterationData p r host w3 in
                   if 1 < length (Results p) then
                     (case historyLoop 0 (Results p) [] w4 of
                        (Inl e, w5) \<Rightarrow> (Inl e, w5)
                      | (Inr history, w5) \<Rightarrow>
                          (case alloc (ArrObj history) w5 of
                             (ha, w6) \<Rightarrow> (Inr result, mapSet r ''history'' (VMaps ha) w6)))
                   else (Inr result, w4))
              | None \<Rightarrow> (Inl (Panic ''interface conversion: host is not a string''), w3)))"

definition executeWithIteration ::
    "env \<Rightarrow> TraceroutePlugin \<Rightarrow> params \<Rightarrow> world \<Rightarrow> (error + val) \<times> TraceroutePlugin \<times> world" where
  "executeWithIteration E p ps w =
     (case performTraceroute E ps w of
        (Inl err, w1) \<Rightarrow> (Inl err, p, w1)
      | (Inr result, w1) \<Rightarrow>
          (let p1 = p\<lparr>IterationCount := wrap64 (IterationCount p + 1)\<rparr> in
           case assert_map (Some result) of
             Some r \<Rightarrow>
               (case alloc (MapObj (copyMap (mapAt w1 r))) w1 of
                  (c, w2) \<Rightarrow>
                    (let p2 = p1\<lparr>Results := Results p1 @ [VMap c]\<rparr> in
                     case annotate E p2 result r w2 of
                       (res, w3) \<Rightarrow> (res, p2, w3)))
           | None \<Rightarrow> (Inr result, p1, w1)))"

subsection \<open>Execute (plugin.go, lines 31 to 40)\<close>

definition Execute ::
    "env \<Rightarrow> TraceroutePlugin \<Rightarrow> params \<Rightarrow> world \<Rightarrow> (error + val) \<times> TraceroutePlugin \<times> world" where
  "Execute E p ps w =
     (let continueToIterate = (case assert_bool (ps ''continueToIterate'') of
                                 Some b \<Rightarrow> b
                               | None \<Rightarrow> False)
      in if continueToIterate then executeWithIteration E p ps w
         else (case performTraceroute E ps w of (res, w1) \<Rightarrow> (res, p, w1)))"

section \<open>Callers\<close>



text \<open>
  The hops of a run as the specification words them: the returned text is split into
  lines, the first line and any empty lines are discarded, and the remaining lines are fed
  through the parser of one line, in order. Nothing is stored here: the records are
  returned as they are.
\<close>

fun parseLines :: "env \<Rightarrow> string list \<Rightarrow> world \<Rightarrow> gomap list \<times> world" where
  "parseLines E [] w = ([], w)"
| "parseLines E (line # rest) w =
     (case parseHopLine E line w of
        (None, w1) \<Rightarrow> parseLines E rest w1
      | (Some hop, w1) \<Rightarrow>
          (case parseLines E rest w1 of
             (hops, w2) \<Rightarrow> (hop # hops, w2)))"

definition spec_hops :: "env \<Rightarrow> string \<Rightarrow> world \<Rightarrow> gomap list \<times> world" where
  "spec_hops E output w =
     parseLines E (filter (\<lambda>line. line \<noteq> []) (tl (strings_Split output))) w"


text \<open>What a holder of a result reads as its hops: the contents of each hop's map.\<close>

definition hopsOf :: "world \<Rightarrow> val \<Rightarrow> gomap list" where
  "hopsOf w v =
     (case assert_maps (map_of (asMap w v) ''hops'') of
        Some ha \<Rightarrow> map (asMap w) (arrAt w ha)
      | None \<Rightarrow> [])"


section \<open>A concrete world for the examples\<close>

text \<open>
  A stand-in for \<^verbatim>\<open>strconv.ParseFloat\<close> on plain decimal literals (sign, digits,
  fraction, exponent), used where an example needs a concrete environment: the value is
  the exact decimal value, and a magnitude of at least \<open>2^1024 - 2^970\<close> (which rounds
  beyond the largest \<^verbatim>\<open>float64\<close>) is a range error. Hexadecimal literals, digit
  separators and the names of the special values are outside it.
\<close>

definition scanSign :: "string \<Rightarrow> bool \<times> string" where
  "scanSign s =
     (case s of
        [] \<Rightarrow> (False, [])
      | c # r \<Rightarrow> if c = CHR ''-'' then (True, r) else if c = CHR ''+'' then (False, r) else (False, s))"

definition scanDigits :: "string \<Rightarrow> string \<times> string" where
  "scanDigits s = (takeWhile isDigit s, dropWhile isDigit s)"

definition scanFraction :: "string \<Rightarrow> string \<times> string" where
  "scanFraction s =
     (case s of
        [] \<Rightarrow> ([], [])
      | c # r \<Rightarrow> if c = CHR ''.'' then scanDigits r else ([], s))"

text \<open>The exponent: \<open>Some 0\<close> when there is none, \<open>None\<close> when its digits are missing.\<close>

definition scanExponent :: "string \<Rightarrow> int option \<times> string" where
  "scanExponent s =
     (case s of
        [] \<Rightarrow> (Some 0, [])
      | c # r \<Rightarrow>
          if c = CHR ''e'' \<or> c = CHR ''E'' then
            (case scanSign r of
               (eneg, r1) \<Rightarrow>
                 (case scanDigits r1 of
                    (ed, r2) \<Rightarrow>
                      if ed = [] then (None, r2)
                      else (Some (if eneg then - digitsVal ed else digitsVal ed), r2)))
          else (Some 0, s))"

definition scale10 :: "int \<Rightarrow> int \<Rightarrow> rat" where
  "scale10 m e = (if e < 0 then of_int m / 10 ^ nat (- e) else of_int m * 10 ^ nat e)"

definition rangeCheck :: "bool \<Rightarrow> rat \<Rightarrow> pf_result" where
  "rangeCheck neg v =
     (if 2 ^ 1024 - 2 ^ 970 \<le> v then RangeErr neg
      else Parsed (Finite (if neg then - v else v)))"

definition decimal_ParseFloat :: "string \<Rightarrow> pf_result" where
  "decimal_ParseFloat s =
     (case scanSign s of
        (neg, s1) \<Rightarrow>
          (case scanDigits s1 of
             (ip, s2) \<Rightarrow>
               (case scanFraction s2 of
                  (fp, s3) \<Rightarrow>
                    (case scanExponent s3 of
                       (None, s4) \<Rightarrow> SyntaxErr
                     | (Some e, s4) \<Rightarrow>
                         if ip @ fp = [] \<or> s4 \<noteq> [] then SyntaxErr
                         else rangeCheck neg (scale10 (digitsVal (ip @ fp)) (e - int (length fp)))))))"

text \<open>An environment whose probe always leaves the given error and buffers, whose
  resolver knows one address, and whose clock counts the external calls.\<close>

definition example_env :: "string option \<Rightarrow> string \<Rightarrow> string \<Rightarrow> env" where
  "example_env err out errout =
     \<lparr>exec_Run = (\<lambda>n argv. \<lparr>cmd_err = err, cmd_stdout = out, cmd_stderr = errout\<rparr>),
      net_LookupAddr = (\<lambda>n ip. if ip = ''10.0.0.1'' then Some [''gw.example.''] else None),
      time_Now = (\<lambda>n. int n),
      time_Format = Sprintf_d,
      duration_String = Sprintf_d,
      strconv_ParseFloat = decimal_ParseFloat,
      int_impl = (\<lambda>f. - (2 ^ 63))\<rparr>"

definition world0 :: world where
  "world0 = \<lparr>heap = [], tick = 0, cmds = []\<rparr>"

text \<open>Lines joined by line feeds.\<close>

fun joinLines :: "string list \<Rightarrow> string" where
  "joinLines [] = []"
| "joinLines [l] = l"
| "joinLines (l # ls) = l @ CHR 0x0A # joinLines ls"

text \<open>A probe output of three lines: the header, a hop that answered and one that did
  not.\<close>

definition example_output :: string where
  "example_output =
     joinLines [''traceroute to 10.0.0.1 (10.0.0.1), 5 hops max'',
                '' 1  10.0.0.1  1.234 ms'',
                '' 2  * * *'']"

text \<open>The store, the plugin instance and the results after one and after two iterating
  calls on a new instance in the environment whose probe prints \<open>example_output\<close>
  (evaluated below).\<close>

definition hop1 :: gomap where
  "hop1 = [(''hop'', VInt 1), (''host'', VStr ''10.0.0.1''), (''name'', VStr ''gw.example''),
           (''rtt'', VFloat (Finite (1234 / 1000))), (''status'', VStr ''OK'')]"

definition hop2 :: gomap where
  "hop2 = [(''hop'', VInt 2), (''host'', VStr ''*''), (''name'', VStr ''*''),
           (''rtt'', VFloat (Finite 0)), (''status'', VStr ''NO RESPONSE'')]"







section \<open>The parser of one line\<close>

lemma parseHopLine_skip:
  "length (strings_Fields line) < 2 \<or> strconv_Atoi (strings_Fields line ! 0) = None
   \<Longrightarrow> parseHopLine E line w = (None, w)"
  by (auto simp: parseHopLine_def Let_def)

lemma parseHopLine_unresponsive:
  assumes "2 \<le> length (strings_Fields line)"
    and "strconv_Atoi (strings_Fields line ! 0) = Some n"
    and "length (strings_Fields line) < 4 \<or> strings_Fields line ! 1 = ''*''"
  shows "parseHopLine E line w = (Some (hopMap n ''*'' ''*'' (Finite 0)), w)"
  using assms by (auto simp: parseHopLine_def Let_def)

lemma parseHopLine_responsive:
  assumes "4 \<le> length (strings_Fields line)"
    and "strconv_Atoi (strings_Fields line ! 0) = Some n"
    and "strings_Fields line ! 1 \<noteq> ''*''"
  shows "parseHopLine E line w =
           (Some (hopMap n (strings_Fields line ! 1)
                    (case net_LookupAddr E (tick w) (strings_Fields line ! 1) of
                            None \<Rightarrow> strings_Fields line ! 1
                          | Some [] \<Rightarrow> strings_Fields line ! 1
                          | Some (a # as) \<Rightarrow> strings_TrimSuffix a ''.'')
                    (pf_value (strconv_ParseFloat E (strings_TrimSuffix (strings_Fields line ! 2) ''ms'')))),
            w\<lparr>tick := Suc (tick w)\<rparr>)"
  using assms by (auto simp: parseHopLine_def Let_def lookupAddr_def split: option.splits list.splits)

text \<open>
  Claim C5. A line that has at least two fields and whose second field is the timeout
  sentinel \<^verbatim>\<open>*\<close> gives, as soon as its first field is a hop number, the hop record
  with address \<^verbatim>\<open>*\<close>, display name \<^verbatim>\<open>*\<close>, round-trip time 0 and status
  \<^verbatim>\<open>NO RESPONSE\<close>, and nothing is looked up; the only other outcome for such a line is
  that it is passed over, when its first field is no number.
\<close>

theorem timeout_hop_line:
  assumes "strings_Fields line = parts" and "2 \<le> length parts" and "parts ! 1 = ''*''"
  shows "parseHopLine E line w =
           (case strconv_Atoi (parts ! 0) of
              None \<Rightarrow> (None, w)
            | Some n \<Rightarrow>
                (Some [(''hop'', VInt n), (''host'', VStr ''*''), (''name'', VStr ''*''),
                       (''rtt'', VFloat (Finite 0)), (''status'', VStr ''NO RESPONSE'')], w))"
proof (cases "strconv_Atoi (parts ! 0)")
  case None
  with assms show ?thesis by (simp add: parseHopLine_skip)
next
  case (Some n)
  with assms have "parseHopLine E line w = (Some (hopMap n ''*'' ''*'' (Finite 0)), w)"
    by (intro parseHopLine_unresponsive) simp_all
  with Some show ?thesis by (simp add: hopMap_def)
qed

lemma fields_ex1: "strings_Fields '' 2  * * *'' = [''2'', ''*'', ''*'', ''*'']"
  by (simp add: strings_Fields_def spaceWidth_def)

lemma atoi_ex1: "strconv_Atoi ''2'' = Some 2"
  by (simp add: strconv_Atoi_def isDigit_def digitsVal_def)

theorem timeout_hop_line_witness:
  "strings_Fields '' 2  * * *'' = [''2'', ''*'', ''*'', ''*''] \<and>
   parseHopLine (example_env None [] []) '' 2  * * *'' world0 =
     (Some [(''hop'', VInt 2), (''host'', VStr ''*''), (''name'', VStr ''*''),
            (''rtt'', VFloat (Finite 0)), (''status'', VStr ''NO RESPONSE'')], world0)"
  using timeout_hop_line [OF fields_ex1, where E = "example_env None [] []" and w = world0]
  by (simp add: fields_ex1 atoi_ex1)


text \<open>
  Claim C10. A line with two or three fields, whose first field is an integer and whose
  second field is not \<^verbatim>\<open>*\<close>, is not passed over and its second field is not used as
  the address: the record emitted is the one of a hop that did not answer.
\<close>

theorem short_hop_line:
  assumes "strings_Fields line = parts" and "2 \<le> length parts" and "length parts < 4"
    and "strconv_Atoi (parts ! 0) = Some n" and "parts ! 1 \<noteq> ''*''"
  shows "parseHopLine E line w =
           (Some [(''hop'', VInt n), (''host'', VStr ''*''), (''name'', VStr ''*''),
                  (''rtt'', VFloat (Finite 0)), (''status'', VStr ''NO RESPONSE'')], w)"
proof -
  from assms have "parseHopLine E line w = (Some (hopMap n ''*'' ''*'' (Finite 0)), w)"
    by (intro parseHopLine_unresponsive) simp_all
  then show ?thesis by (simp add: hopMap_def)
qed

lemma fields_ex2: "strings_Fields ''3 10.0.0.9 4.2'' = [''3'', ''10.0.0.9'', ''4.2'']"
  by (simp add: strings_Fields_def spaceWidth_def)

lemma atoi_ex2: "strconv_Atoi ''3'' = Some 3"
  by (simp add: strconv_Atoi_def isDigit_def digitsVal_def)

theorem short_hop_line_witness:
  "strings_Fields ''3 10.0.0.9 4.2'' = [''3'', ''10.0.0.9'', ''4.2''] \<and>
   strconv_Atoi ''3'' = Some 3 \<and>
   parseHopLine (example_env None [] []) ''3 10.0.0.9 4.2'' world0 =
     (Some [(''hop'', VInt 3), (''host'', VStr ''*''), (''name'', VStr ''*''),
            (''rtt'', VFloat (Finite 0)), (''status'', VStr ''NO RESPONSE'')], world0)"
  using short_hop_line [OF fields_ex2, where n = 3 and E = "example_env None [] []" and w = world0]
  by (simp add: fields_ex2 atoi_ex2)

text \<open>
  Claim C7. Every hop record the parser emits has the five fields, a status that is
  \<^verbatim>\<open>OK\<close> exactly when the address is not \<^verbatim>\<open>*\<close> (and \<^verbatim>\<open>NO RESPONSE\<close> otherwise),
  and, when the address is \<^verbatim>\<open>*\<close>, round-trip time 0 and display name \<^verbatim>\<open>*\<close>.
\<close>

theorem hop_record_consistent:
  assumes "fst (parseHopLine E line w) = Some m"
  shows "\<exists>n ip nm r st.
           m = [(''hop'', VInt n), (''host'', VStr ip), (''name'', VStr nm),
                (''rtt'', VFloat r), (''status'', VStr st)] \<and>
           (st = ''OK'' \<or> st = ''NO RESPONSE'') \<and>
           (st = ''OK'' \<longleftrightarrow> ip \<noteq> ''*'') \<and>
           (ip = ''*'' \<longrightarrow> r = Finite 0 \<and> nm = ''*'')"
proof -
  let ?parts = "strings_Fields line"
  from assms have len: "2 \<le> length ?parts"
    by (cases "length ?parts < 2") (simp_all add: parseHopLine_skip)
  from assms obtain n where n: "strconv_Atoi (?parts ! 0) = Some n"
    by (cases "strconv_Atoi (?parts ! 0)") (simp_all add: parseHopLine_skip)
  show ?thesis
  proof (cases "4 \<le> length ?parts \<and> ?parts ! 1 \<noteq> ''*''")
    case True
    with n assms show ?thesis
      by (auto simp: parseHopLine_responsive hopMap_def)
  next
    case False
    with len n have "parseHopLine E line w = (Some (hopMap n ''*'' ''*'' (Finite 0)), w)"
      by (intro parseHopLine_unresponsive) auto
    with assms show ?thesis by (auto simp: hopMap_def)
  qed
qed

theorem hop_record_consistent_witness:
  "fst (parseHopLine (example_env None [] []) '' 2  * * *'' world0) =
     Some [(''hop'', VInt 2), (''host'', VStr ''*''), (''name'', VStr ''*''),
            (''rtt'', VFloat (Finite 0)), (''status'', VStr ''NO RESPONSE'')] \<and>
   (\<exists>n ip nm r st.
      [(''hop'', VInt 2), (''host'', VStr ''*''), (''name'', VStr ''*''),
       (''rtt'', VFloat (Finite 0)), (''status'', VStr ''NO RESPONSE'')] =
      [(''hop'', VInt n), (''host'', VStr ip), (''name'', VStr nm),
       (''rtt'', VFloat r), (''status'', VStr st)] \<and>
      (st = ''OK'' \<or> st = ''NO RESPONSE'') \<and>
      (st = ''OK'' \<longleftrightarrow> ip \<noteq> ''*'') \<and>
      (ip = ''*'' \<longrightarrow> r = Finite 0 \<and> nm = ''*''))"
proof -
  have ev: "fst (parseHopLine (example_env None [] []) '' 2  * * *'' world0) =
     Some [(''hop'', VInt 2), (''host'', VStr ''*''), (''name'', VStr ''*''),
            (''rtt'', VFloat (Finite 0)), (''status'', VStr ''NO RESPONSE'')]"
    by (simp add: parseHopLine_unresponsive fields_ex1 atoi_ex1 hopMap_def)
  from hop_record_consistent [OF ev] ev show ?thesis by blast
qed


text \<open>
  Claim C6, as amended. The parser passes a line over, with no record, no error and no
  effect, when the line has fewer than two fields or its first field is not an integer
  for \<^verbatim>\<open>strconv.Atoi\<close>; otherwise it emits one record, whose hop number is that
  integer. The sign of the number is not looked at.
\<close>

theorem skipped_lines:
  assumes "strings_Fields line = parts"
  shows "(length parts < 2 \<or> strconv_Atoi (parts ! 0) = None \<longrightarrow>
            parseHopLine E line w = (None, w)) \<and>
         (2 \<le> length parts \<and> strconv_Atoi (parts ! 0) = Some n \<longrightarrow>
            (\<exists>ip nm r st. fst (parseHopLine E line w) =
               Some [(''hop'', VInt n), (''host'', VStr ip), (''name'', VStr nm),
                     (''rtt'', VFloat r), (''status'', VStr st)]))"
proof (intro conjI impI)
  assume "length parts < 2 \<or> strconv_Atoi (parts ! 0) = None"
  with assms show "parseHopLine E line w = (None, w)"
    by (intro parseHopLine_skip) simp
next
  assume a: "2 \<le> length parts \<and> strconv_Atoi (parts ! 0) = Some n"
  show "\<exists>ip nm r st. fst (parseHopLine E line w) =
               Some [(''hop'', VInt n), (''host'', VStr ip), (''name'', VStr nm),
                     (''rtt'', VFloat r), (''status'', VStr st)]"
  proof (cases "4 \<le> length parts \<and> parts ! 1 \<noteq> ''*''")
    case True
    with a assms show ?thesis
      by (auto simp: parseHopLine_responsive hopMap_def)
  next
    case False
    with a assms have "parseHopLine E line w = (Some (hopMap n ''*'' ''*'' (Finite 0)), w)"
      by (intro parseHopLine_unresponsive) auto
    then show ?thesis by (simp add: hopMap_def)
  qed
qed

lemma fields_ex3: "strings_Fields ''traceroute:'' = [''traceroute:'']"
  by (simp add: strings_Fields_def spaceWidth_def)

lemma fields_ex4: "strings_Fields ''0 *'' = [''0'', ''*'']"
  by (simp add: strings_Fields_def spaceWidth_def)

lemma atoi_ex4: "strconv_Atoi ''0'' = Some 0"
  by (simp add: strconv_Atoi_def isDigit_def digitsVal_def)

lemma fields_ex5: "strings_Fields ''-3 *'' = [''-3'', ''*'']"
  by (simp add: strings_Fields_def spaceWidth_def)

lemma atoi_ex5: "strconv_Atoi ''-3'' = Some (- 3)"
  by (simp add: strconv_Atoi_def isDigit_def digitsVal_def)

theorem skipped_lines_witness:
  "parseHopLine (example_env None [] []) ''traceroute:'' world0 = (None, world0) \<and>
   strconv_Atoi ''2'' = Some 2 \<and>
   (\<exists>ip nm r st. fst (parseHopLine (example_env None [] []) '' 2  * * *'' world0) =
      Some [(''hop'', VInt 2), (''host'', VStr ip), (''name'', VStr nm),
            (''rtt'', VFloat r), (''status'', VStr st)])"
  using skipped_lines [OF fields_ex3, where E = "example_env None [] []" and w = world0]
        skipped_lines [OF fields_ex1, where n = 2 and E = "example_env None [] []" and w = world0]
  by (simp add: atoi_ex1)

text \<open>
  Claim C6 as stated fails: a first field \<^verbatim>\<open>0\<close> or \<^verbatim>\<open>-3\<close> is no positive integer,
  yet the line is not passed over, and the record emitted carries that hop number.
\<close>

theorem nonpositive_hop_number_counterexample:
  "fst (parseHopLine (example_env None [] []) ''0 *'' world0) =
     Some [(''hop'', VInt 0), (''host'', VStr ''*''), (''name'', VStr ''*''),
           (''rtt'', VFloat (Finite 0)), (''status'', VStr ''NO RESPONSE'')] \<and>
   fst (parseHopLine (example_env None [] []) ''-3 *'' world0) =
     Some [(''hop'', VInt (- 3)), (''host'', VStr ''*''), (''name'', VStr ''*''),
           (''rtt'', VFloat (Finite 0)), (''status'', VStr ''NO RESPONSE'')]"
  by (simp add: parseHopLine_unresponsive fields_ex4 atoi_ex4 fields_ex5 atoi_ex5 hopMap_def)

text \<open>
  Claim C9, as amended. A line with at least four fields, whose first field is an integer
  and whose second field is not \<^verbatim>\<open>*\<close>, always gives a record, with status
  \<^verbatim>\<open>OK\<close> and the second field as address. Its round-trip time is what
  \<^verbatim>\<open>strconv.ParseFloat\<close> returns for the third field without a trailing
  \<^verbatim>\<open>ms\<close>, the error being dropped: the parsed value when there is no error, 0 when
  the field is not a number at all, and plus or minus infinity when the field is a number
  beyond the range of a \<^verbatim>\<open>float64\<close>.
\<close>

theorem responsive_hop_line:
  assumes "strings_Fields line = parts" and "4 \<le> length parts" and "parts ! 1 \<noteq> ''*''"
    and "strconv_Atoi (parts ! 0) = Some n"
  shows "fst (parseHopLine E line w) =
           Some [(''hop'', VInt n),
                 (''host'', VStr (parts ! 1)),
                 (''name'', VStr (case net_LookupAddr E (tick w) (parts ! 1) of
                                    None \<Rightarrow> parts ! 1
                                  | Some [] \<Rightarrow> parts ! 1
                                  | Some (a # as) \<Rightarrow> strings_TrimSuffix a ''.'')),
                 (''rtt'', VFloat (case strconv_ParseFloat E (strings_TrimSuffix (parts ! 2) ''ms'') of
                                     Parsed f \<Rightarrow> f
                                   | SyntaxErr \<Rightarrow> Finite 0
                                   | RangeErr neg \<Rightarrow> if neg then NegInf else PosInf)),
                 (''status'', VStr ''OK'')]"
proof -
  have "pf_value x = (case x of Parsed f \<Rightarrow> f | SyntaxErr \<Rightarrow> Finite 0
                      | RangeErr neg \<Rightarrow> if neg then NegInf else PosInf)" for x
    by (cases x) simp_all
  with assms show ?thesis
    by (auto simp: parseHopLine_responsive hopMap_def split: option.splits list.splits)
qed

lemmas pf_defs = decimal_ParseFloat_def scanSign_def scanDigits_def scanFraction_def
  scanExponent_def scale10_def rangeCheck_def isDigit_def digitsVal_def

lemma fields_ex6: "strings_Fields '' 1  10.0.0.1  1.234 ms'' = [''1'', ''10.0.0.1'', ''1.234'', ''ms'']"
  by (simp add: strings_Fields_def spaceWidth_def)

lemma atoi_ex6: "strconv_Atoi ''1'' = Some 1"
  by (simp add: strconv_Atoi_def isDigit_def digitsVal_def)

lemma pf_ex6: "decimal_ParseFloat ''1.234'' = Parsed (Finite (1234 / 1000))"
  by (simp add: pf_defs)

lemma fields_ex7: "strings_Fields '' 1  10.0.0.1  1e309 ms'' = [''1'', ''10.0.0.1'', ''1e309'', ''ms'']"
  by (simp add: strings_Fields_def spaceWidth_def)

lemma pf_ex7: "decimal_ParseFloat ''1e309'' = RangeErr False"
  by (simp add: pf_defs)

lemma fields_ex8: "strings_Fields '' 1  10.0.0.1  n/a ms'' = [''1'', ''10.0.0.1'', ''n/a'', ''ms'']"
  by (simp add: strings_Fields_def spaceWidth_def)

lemma pf_ex8: "decimal_ParseFloat ''n/a'' = SyntaxErr"
  by (simp add: pf_defs)

theorem responsive_hop_line_witness:
  "strconv_Atoi ''1'' = Some 1 \<and>
   fst (parseHopLine (example_env None [] []) '' 1  10.0.0.1  1.234 ms'' world0) =
     Some [(''hop'', VInt 1), (''host'', VStr ''10.0.0.1''), (''name'', VStr ''gw.example''),
           (''rtt'', VFloat (Finite (1234 / 1000))), (''status'', VStr ''OK'')] \<and>
   fst (parseHopLine (example_env None [] []) '' 1  10.0.0.1  n/a ms'' world0) =
     Some [(''hop'', VInt 1), (''host'', VStr ''10.0.0.1''), (''name'', VStr ''gw.example''),
           (''rtt'', VFloat (Finite 0)), (''status'', VStr ''OK'')]"
  using responsive_hop_line [OF fields_ex6, where n = 1 and E = "example_env None [] []" and w = world0]
        responsive_hop_line [OF fields_ex8, where n = 1 and E = "example_env None [] []" and w = world0]
  by (simp add: atoi_ex6 pf_ex6 pf_ex8 example_env_def world0_def strings_TrimSuffix_def)

text \<open>
  Claim C9 as stated fails: \<^verbatim>\<open>1e309\<close> does not parse (a range error), and the
  round-trip time of the record is infinity, not 0.
\<close>

theorem rtt_out_of_range_counterexample:
  "strconv_ParseFloat (example_env None [] []) (strings_TrimSuffix ''1e309'' ''ms'') = RangeErr False \<and>
   fst (parseHopLine (example_env None [] []) '' 1  10.0.0.1  1e309 ms'' world0) =
     Some [(''hop'', VInt 1), (''host'', VStr ''10.0.0.1''), (''name'', VStr ''gw.example''),
           (''rtt'', VFloat PosInf), (''status'', VStr ''OK'')]"
  by (simp add: parseHopLine_responsive fields_ex7 atoi_ex6 pf_ex7 hopMap_def
        example_env_def world0_def strings_TrimSuffix_def)

section \<open>One run\<close>

lemma alloc_eq: "alloc ob w = (length (heap w), w\<lparr>heap := heap w @ [ob]\<rparr>)"
  by (simp add: alloc_def)

lemma parseHopLine_world:
  "heap (snd (parseHopLine E line w)) = heap w \<and> cmds (snd (parseHopLine E line w)) = cmds w"
  by (auto simp: parseHopLine_def Let_def lookupAddr_def split: option.splits list.splits)

lemma hopLoop_cmds: "cmds (snd (hopLoop E i ls hops w)) = cmds w"
proof (induction ls arbitrary: i hops w)
  case Nil
  then show ?case by simp
next
  case (Cons line rest)
  show ?case
  proof (cases "i = 0 \<or> length line = 0")
    case True
    then show ?thesis using Cons.IH by auto
  next
    case False
    obtain r w1 where p: "parseHopLine E line w = (r, w1)" by (cases "parseHopLine E line w")
    with parseHopLine_world [of E line w] have c: "cmds w1 = cmds w" by simp
    show ?thesis
    proof (cases r)
      case None
      with False p c show ?thesis using Cons.IH by simp
    next
      case (Some hop)
      with False p c show ?thesis using Cons.IH by (simp add: alloc_eq)
    qed
  qed
qed

lemma performTraceroute_fail:
  assumes "param_host ps \<noteq> []"
    and "exec_Run E (tick w) (command (param_maxHops E ps) (param_host ps)) = res"
    and "cmd_err res = Some err" and "cmd_stderr res \<noteq> []"
  shows "performTraceroute E ps w =
           (Inl (Errorf (''traceroute failed: '' @ err @ '': '' @ cmd_stderr res)),
            w\<lparr>tick := Suc (tick w),
              cmds := cmds w @ [command (param_maxHops E ps) (param_host ps)]\<rparr>)"
  using assms by (simp add: performTraceroute_def Let_def cmd_Run_def err_Error_def)

lemma performTraceroute_ok:
  assumes "param_host ps \<noteq> []"
    and "exec_Run E (tick w) (command (param_maxHops E ps) (param_host ps)) = res"
    and "cmd_err res = None \<or> cmd_stderr res = []"
    and "hopLoop E 0 (strings_Split (cmd_stdout res)) []
           (w\<lparr>tick := Suc (tick w),
              cmds := cmds w @ [command (param_maxHops E ps) (param_host ps)]\<rparr>) = (hops, w2)"
  shows "performTraceroute E ps w =
           (Inr (VMap (Suc (length (heap w2)))),
            w2\<lparr>tick := Suc (tick w2),
               heap := heap w2 @
                 [ArrObj hops,
                  MapObj [(''host'', VStr (param_host ps)),
                          (''hops'', VMaps (length (heap w2))),
                          (''timestamp'', VStr (time_Format E (time_Now E (tick w2)))),
                          (''rawOutput'', VStr (cmd_stdout res))]]\<rparr>)"
  using assms by (auto simp: performTraceroute_def Let_def cmd_Run_def now_def alloc_eq)

lemma performTraceroute_cmds:
  assumes "param_host ps \<noteq> []"
  shows "cmds (snd (performTraceroute E ps w)) =
           cmds w @ [command (param_maxHops E ps) (param_host ps)]"
proof -
  let ?argv = "command (param_maxHops E ps) (param_host ps)"
  let ?res = "exec_Run E (tick w) ?argv"
  let ?w1 = "w\<lparr>tick := Suc (tick w), cmds := cmds w @ [?argv]\<rparr>"
  show ?thesis
  proof (cases "cmd_err ?res = None \<or> cmd_stderr ?res = []")
    case True
    obtain hops w2 where l: "hopLoop E 0 (strings_Split (cmd_stdout ?res)) [] ?w1 = (hops, w2)"
      by (cases "hopLoop E 0 (strings_Split (cmd_stdout ?res)) [] ?w1")
    with hopLoop_cmds [of E 0 "strings_Split (cmd_stdout ?res)" "[]" ?w1]
    have "cmds w2 = cmds w @ [?argv]" by simp
    with performTraceroute_ok [OF assms refl True l] show ?thesis by simp
  next
    case False
    then obtain err where "cmd_err ?res = Some err" "cmd_stderr ?res \<noteq> []" by auto
    with performTraceroute_fail [OF assms refl] show ?thesis by simp
  qed
qed

lemma performTraceroute_no_host:
  "param_host ps = [] \<Longrightarrow>
   performTraceroute E ps w = (Inl (Errorf ''host parameter is required''), w)"
  by (simp add: performTraceroute_def Let_def)

subsection \<open>The loop over the lines and the specification's wording\<close>

lemma parseHopLine_heap:
  "parseHopLine E line (w\<lparr>heap := h\<rparr>) =
     (fst (parseHopLine E line w), (snd (parseHopLine E line w))\<lparr>heap := h\<rparr>)"
  by (auto simp: parseHopLine_def Let_def lookupAddr_def split: option.splits list.splits)

lemma parseLines_heap:
  "parseLines E ls (w\<lparr>heap := h\<rparr>) =
     (fst (parseLines E ls w), (snd (parseLines E ls w))\<lparr>heap := h\<rparr>)"
proof (induction ls arbitrary: w)
  case Nil
  then show ?case by simp
next
  case (Cons line rest)
  obtain r w1 where p: "parseHopLine E line w = (r, w1)" by (cases "parseHopLine E line w")
  with parseHopLine_heap [where E = E and line = line and w = w and h = h]
  have ph: "parseHopLine E line (w\<lparr>heap := h\<rparr>) = (r, w1\<lparr>heap := h\<rparr>)" by simp
  obtain rs w2 where q: "parseLines E rest w1 = (rs, w2)" by (cases "parseLines E rest w1")
  with Cons.IH [of w1] have "parseLines E rest (w1\<lparr>heap := h\<rparr>) = (rs, w2\<lparr>heap := h\<rparr>)"
    by simp
  with p ph q show ?case by (cases r) simp_all
qed

lemma parseLines_world:
  "heap (snd (parseLines E ls w)) = heap w \<and> cmds (snd (parseLines E ls w)) = cmds w"
proof (induction ls arbitrary: w)
  case Nil
  then show ?case by simp
next
  case (Cons line rest)
  obtain r w1 where p: "parseHopLine E line w = (r, w1)" by (cases "parseHopLine E line w")
  with parseHopLine_world [of E line w] have "heap w1 = heap w" "cmds w1 = cmds w" by simp_all
  moreover obtain rs w2 where q: "parseLines E rest w1 = (rs, w2)"
    by (cases "parseLines E rest w1")
  ultimately show ?case using p Cons.IH [of w1] by (cases r) simp_all
qed

lemma hopLoop_Suc:
  "hopLoop E (Suc i) lines hops w =
     (hops @ map VMap [length (heap w) ..<
                       length (heap w) + length (fst (parseLines E (filter (\<lambda>l. l \<noteq> []) lines) w))],
      (snd (parseLines E (filter (\<lambda>l. l \<noteq> []) lines) w))
        \<lparr>heap := heap w @ map MapObj (fst (parseLines E (filter (\<lambda>l. l \<noteq> []) lines) w))\<rparr>)"
proof (induction lines arbitrary: i hops w)
  case Nil
  then show ?case by simp
next
  case (Cons line rest)
  let ?ls = "filter (\<lambda>l. l \<noteq> []) rest"
  show ?case
  proof (cases "line = []")
    case True
    with Cons.IH [of "Suc i" hops w] show ?thesis by simp
  next
    case False
    obtain r w1 where p: "parseHopLine E line w = (r, w1)" by (cases "parseHopLine E line w")
    with parseHopLine_world [of E line w] have h1: "heap w1 = heap w" by simp
    show ?thesis
    proof (cases r)
      case None
      with False p h1 Cons.IH [of "Suc i" hops w1] show ?thesis by simp
    next
      case (Some hop)
      let ?w1' = "w1\<lparr>heap := heap w1 @ [MapObj hop]\<rparr>"
      obtain rs w2 where pl: "parseLines E ?ls w1 = (rs, w2)" by (cases "parseLines E ?ls w1")
      with parseLines_heap [where E = E and ls = ?ls and w = w1 and h = "heap w1 @ [MapObj hop]"]
      have pl': "parseLines E ?ls ?w1' = (rs, w2\<lparr>heap := heap w1 @ [MapObj hop]\<rparr>)" by simp
      have u: "[length (heap w) ..< length (heap w) + Suc (length rs)] =
               length (heap w) # [Suc (length (heap w)) ..< Suc (length (heap w)) + length rs]"
        by (subst upt_rec) simp
      from False p Some have "hopLoop E (Suc i) (line # rest) hops w =
          hopLoop E (Suc (Suc i)) rest (hops @ [VMap (length (heap w1))]) ?w1'"
        by (simp add: alloc_eq)
      also have "\<dots> = (hops @ [VMap (length (heap w1))] @
                          map VMap [Suc (length (heap w1)) ..< Suc (length (heap w1)) + length rs],
                       w2\<lparr>heap := heap w1 @ [MapObj hop] @ map MapObj rs\<rparr>)"
        using Cons.IH [of "Suc i" "hops @ [VMap (length (heap w1))]" ?w1'] pl' by simp
      finally show ?thesis using False p Some pl h1 u by simp
    qed
  qed
qed

lemma hopLoop_0:
  "hopLoop E 0 lines [] w =
     (map VMap [length (heap w) ..<
                length (heap w) + length (fst (parseLines E (filter (\<lambda>l. l \<noteq> []) (tl lines)) w))],
      (snd (parseLines E (filter (\<lambda>l. l \<noteq> []) (tl lines)) w))
        \<lparr>heap := heap w @ map MapObj (fst (parseLines E (filter (\<lambda>l. l \<noteq> []) (tl lines)) w))\<rparr>)"
proof (cases lines)
  case Nil
  then show ?thesis by simp
next
  case (Cons line rest)
  then show ?thesis using hopLoop_Suc [of E 0 rest "[]" w] by simp
qed


lemma map_asMap_fresh:
  assumes "heap w' = h @ map MapObj rs @ ys"
  shows "map (asMap w') (map VMap [length h ..< length h + length rs]) = rs"
proof (rule nth_equalityI)
  show "length (map (asMap w') (map VMap [length h ..< length h + length rs])) = length rs"
    by simp
next
  fix i
  assume "i < length (map (asMap w') (map VMap [length h ..< length h + length rs]))"
  then have i: "i < length rs" by simp
  then have "map (asMap w') (map VMap [length h ..< length h + length rs]) ! i =
             mapAt w' (length h + i)" by simp
  also from i assms have "\<dots> = rs ! i" by (simp add: mapAt_def nth_append)
  finally show "map (asMap w') (map VMap [length h ..< length h + length rs]) ! i = rs ! i" .
qed

lemma performTraceroute_run:
  assumes "param_host ps \<noteq> []"
    and "exec_Run E (tick w) (command (param_maxHops E ps) (param_host ps)) = res"
    and "cmd_err res = None \<or> cmd_stderr res = []"
    and "spec_hops E (cmd_stdout res)
           (w\<lparr>tick := Suc (tick w),
              cmds := cmds w @ [command (param_maxHops E ps) (param_host ps)]\<rparr>) = (rs, w2)"
  shows "performTraceroute E ps w =
           (Inr (VMap (Suc (length (heap w) + length rs))),
            w2\<lparr>tick := Suc (tick w2),
               heap := heap w @ map MapObj rs @
                 [ArrObj (map VMap [length (heap w) ..< length (heap w) + length rs]),
                  MapObj [(''host'', VStr (param_host ps)),
                          (''hops'', VMaps (length (heap w) + length rs)),
                          (''timestamp'', VStr (time_Format E (time_Now E (tick w2)))),
                          (''rawOutput'', VStr (cmd_stdout res))]]\<rparr>)"
proof -
  let ?w1 = "w\<lparr>tick := Suc (tick w),
               cmds := cmds w @ [command (param_maxHops E ps) (param_host ps)]\<rparr>"
  from assms(4) have l: "hopLoop E 0 (strings_Split (cmd_stdout res)) [] ?w1 =
      (map VMap [length (heap w) ..< length (heap w) + length rs],
       w2\<lparr>heap := heap w @ map MapObj rs\<rparr>)"
    by (simp add: hopLoop_0 spec_hops_def)
  from performTraceroute_ok [OF assms(1-3) l] show ?thesis by simp
qed

lemma performTraceroute_run_hops:
  assumes "heap w' = h @ map MapObj rs @
             [ArrObj (map VMap [length h ..< length h + length rs]), MapObj m]"
    and "map_of m ''hops'' = Some (VMaps (length h + length rs))"
  shows "hopsOf w' (VMap (Suc (length h + length rs))) = rs"
proof -
  from assms(1) have "mapAt w' (Suc (length h + length rs)) = m"
    by (simp add: mapAt_def nth_append)
  moreover from assms(1) have "arrAt w' (length h + length rs) =
      map VMap [length h ..< length h + length rs]"
    by (simp add: arrAt_def nth_append)
  ultimately show ?thesis
    using assms(2) map_asMap_fresh [OF assms(1)] by (simp add: hopsOf_def)
qed

subsection \<open>The claims about one run\<close>

text \<open>
  Claim C8. When the parameter bag has no host, or an empty one, the run fails with the
  error \<^verbatim>\<open>host parameter is required\<close>, in both modes, and both the world and the
  plugin instance are left as they were: no command was run, and nothing was counted or
  stored.
\<close>

theorem missing_host:
  assumes "ps ''host'' = None \<or> ps ''host'' = Some (VStr [])"
  shows "performTraceroute E ps w = (Inl (Errorf ''host parameter is required''), w) \<and>
         executeWithIteration E p ps w = (Inl (Errorf ''host parameter is required''), p, w) \<and>
         Execute E p ps w = (Inl (Errorf ''host parameter is required''), p, w)"
proof -
  from assms have "param_host ps = []" by (auto simp: param_host_def)
  then have "performTraceroute E ps w = (Inl (Errorf ''host parameter is required''), w)"
    by (rule performTraceroute_no_host)
  then show ?thesis by (simp add: executeWithIteration_def Execute_def Let_def)
qed

theorem missing_host_witness:
  "Execute (example_env None [] []) \<lparr>Results = [], StartTime = 0, IterationCount = 0\<rparr>
     [''maxHops'' \<mapsto> VFloat (Finite 5), ''continueToIterate'' \<mapsto> VBool True] world0 =
     (Inl (Errorf ''host parameter is required''),
      \<lparr>Results = [], StartTime = 0, IterationCount = 0\<rparr>, world0) \<and>
   Execute (example_env None [] []) \<lparr>Results = [], StartTime = 0, IterationCount = 0\<rparr>
     [''host'' \<mapsto> VStr []] world0 =
     (Inl (Errorf ''host parameter is required''),
      \<lparr>Results = [], StartTime = 0, IterationCount = 0\<rparr>, world0)"
  using missing_host [where ps = "[''maxHops'' \<mapsto> VFloat (Finite 5), ''continueToIterate'' \<mapsto> VBool True]"
                        and E = "example_env None [] []" and w = world0
                        and p = "\<lparr>Results = [], StartTime = 0, IterationCount = 0\<rparr>"]
        missing_host [where ps = "[''host'' \<mapsto> VStr []]"
                        and E = "example_env None [] []" and w = world0
                        and p = "\<lparr>Results = [], StartTime = 0, IterationCount = 0\<rparr>"]
  by simp

lemma Sprintf_d_30: "Sprintf_d 30 = ''30''"
  by (simp add: Sprintf_d_def digits_of_nat.simps)

text \<open>
  Claim C3, as amended. For a run with a host: when the \<^verbatim>\<open>maxHops\<close> parameter is absent
  or is not a number, the probe is run with \<^verbatim>\<open>-m 30\<close>; when it is a number whose
  integer part is within the range of a 64-bit \<^verbatim>\<open>int\<close>, the probe is run with that
  number, its fraction dropped, whatever its sign; when it is any other number (beyond
  that range, or not finite), the probe is run with whatever the conversion to
  \<^verbatim>\<open>int\<close> of the Go implementation gives for it.
\<close>

theorem maxHops_passed_to_probe:
  assumes "ps ''host'' = Some (VStr host)" and "host \<noteq> []"
  shows "((\<forall>f. ps ''maxHops'' \<noteq> Some (VFloat f)) \<longrightarrow>
            cmds (snd (performTraceroute E ps w)) =
              cmds w @ [[''traceroute'', ''-n'', ''-m'', ''30'', host]]) \<and>
         (ps ''maxHops'' = Some (VFloat (Finite r)) \<and>
               - (2 ^ 63) \<le> truncate_rat r \<and> truncate_rat r < 2 ^ 63 \<longrightarrow>
            cmds (snd (performTraceroute E ps w)) =
              cmds w @ [[''traceroute'', ''-n'', ''-m'', Sprintf_d (truncate_rat r), host]]) \<and>
         (ps ''maxHops'' = Some (VFloat f) \<and>
               (\<forall>q. f = Finite q \<longrightarrow> truncate_rat q < - (2 ^ 63) \<or> 2 ^ 63 \<le> truncate_rat q) \<longrightarrow>
            cmds (snd (performTraceroute E ps w)) =
              cmds w @ [[''traceroute'', ''-n'', ''-m'', Sprintf_d (int_impl E f), host]])"
proof -
  from assms have h: "param_host ps = host" by (simp add: param_host_def)
  have "(\<forall>f. ps ''maxHops'' \<noteq> Some (VFloat f)) \<Longrightarrow> assert_float64 (ps ''maxHops'') = None"
    by (cases "ps ''maxHops''" rule: assert_float64.cases) simp_all
  then have d: "(\<forall>f. ps ''maxHops'' \<noteq> Some (VFloat f)) \<Longrightarrow> param_maxHops E ps = 30"
    by (simp add: param_maxHops_def float64_to_int_def truncate_rat_def)
  have n: "ps ''maxHops'' = Some (VFloat (Finite r)) \<Longrightarrow>
           - (2 ^ 63) \<le> truncate_rat r \<and> truncate_rat r < 2 ^ 63 \<Longrightarrow>
           param_maxHops E ps = truncate_rat r"
    by (simp add: param_maxHops_def float64_to_int_def)
  have o: "ps ''maxHops'' = Some (VFloat f) \<Longrightarrow>
           (\<forall>q. f = Finite q \<longrightarrow> truncate_rat q < - (2 ^ 63) \<or> 2 ^ 63 \<le> truncate_rat q) \<Longrightarrow>
           param_maxHops E ps = int_impl E f"
    by (cases f) (auto simp: param_maxHops_def float64_to_int_def)
  from h assms(2) have "cmds (snd (performTraceroute E ps w)) =
      cmds w @ [command (param_maxHops E ps) host]"
    using performTraceroute_cmds [of ps E w] by simp
  with d n o show ?thesis by (auto simp: command_def Sprintf_d_30)
qed

lemma truncate_rat_ex: "truncate_rat (11 / 2) = 5"
  by (simp add: truncate_rat_def floor_eq_iff)

lemma Sprintf_d_min: "Sprintf_d (- 9223372036854775808) = ''-9223372036854775808''"
  by (simp add: Sprintf_d_def digits_of_nat.simps)

theorem maxHops_passed_to_probe_witness:
  "cmds (snd (performTraceroute (example_env None [] []) [''host'' \<mapsto> VStr ''10.0.0.1''] world0)) =
     [[''traceroute'', ''-n'', ''-m'', ''30'', ''10.0.0.1'']] \<and>
   cmds (snd (performTraceroute (example_env None [] [])
                [''host'' \<mapsto> VStr ''10.0.0.1'', ''maxHops'' \<mapsto> VFloat (Finite (11 / 2))] world0)) =
     [[''traceroute'', ''-n'', ''-m'', ''5'', ''10.0.0.1'']] \<and>
   int_impl (example_env None [] []) (Finite (2 ^ 63)) = - (2 ^ 63) \<and>
   cmds (snd (performTraceroute (example_env None [] [])
                [''host'' \<mapsto> VStr ''10.0.0.1'', ''maxHops'' \<mapsto> VFloat (Finite (2 ^ 63))] world0)) =
     [[''traceroute'', ''-n'', ''-m'', ''-9223372036854775808'', ''10.0.0.1'']]"
proof -
  let ?E = "example_env None [] []"
  have i: "int_impl ?E f = - (2 ^ 63)" for f by (simp add: example_env_def)
  have t: "truncate_rat 9223372036854775808 = 9223372036854775808"
    by (simp add: truncate_rat_def)
  from maxHops_passed_to_probe [where ps = "[''host'' \<mapsto> VStr ''10.0.0.1'']"
          and host = "''10.0.0.1''" and E = ?E and w = world0]
  have "cmds (snd (performTraceroute ?E [''host'' \<mapsto> VStr ''10.0.0.1''] world0)) =
          [[''traceroute'', ''-n'', ''-m'', ''30'', ''10.0.0.1'']]"
    by (simp add: world0_def)
  moreover
  from maxHops_passed_to_probe [where
              ps = "[''host'' \<mapsto> VStr ''10.0.0.1'', ''maxHops'' \<mapsto> VFloat (Finite (11 / 2))]"
          and host = "''10.0.0.1''" and E = ?E and w = world0 and r = "11 / 2"]
  have "cmds (snd (performTraceroute ?E
                [''host'' \<mapsto> VStr ''10.0.0.1'', ''maxHops'' \<mapsto> VFloat (Finite (11 / 2))] world0)) =
          [[''traceroute'', ''-n'', ''-m'', ''5'', ''10.0.0.1'']]"
    by (simp add: world0_def truncate_rat_ex Sprintf_d_def digits_of_nat.simps)
  moreover
  from maxHops_passed_to_probe [where
              ps = "[''host'' \<mapsto> VStr ''10.0.0.1'', ''maxHops'' \<mapsto> VFloat (Finite (2 ^ 63))]"
          and host = "''10.0.0.1''" and E = ?E and w = world0 and f = "Finite (2 ^ 63)"
          and r = "2 ^ 63"]
  have "cmds (snd (performTraceroute ?E
                [''host'' \<mapsto> VStr ''10.0.0.1'', ''maxHops'' \<mapsto> VFloat (Finite (2 ^ 63))] world0)) =
          [[''traceroute'', ''-n'', ''-m'', ''-9223372036854775808'', ''10.0.0.1'']]"
    by (simp add: world0_def t i Sprintf_d_min)
  ultimately show ?thesis using i by simp
qed

text \<open>
  Claim C3 as stated fails: with \<^verbatim>\<open>maxHops\<close> -5 or 0 the probe is run with
  \<^verbatim>\<open>-m -5\<close> or \<^verbatim>\<open>-m 0\<close>, not with 30 and not with a positive number.
\<close>

theorem maxHops_not_positive_counterexample:
  "cmds (snd (performTraceroute (example_env None [] [])
                [''host'' \<mapsto> VStr ''10.0.0.1'', ''maxHops'' \<mapsto> VFloat (Finite (- 5))] world0)) =
     [[''traceroute'', ''-n'', ''-m'', ''-5'', ''10.0.0.1'']] \<and>
   cmds (snd (performTraceroute (example_env None [] [])
                [''host'' \<mapsto> VStr ''10.0.0.1'', ''maxHops'' \<mapsto> VFloat (Finite 0)] world0)) =
     [[''traceroute'', ''-n'', ''-m'', ''0'', ''10.0.0.1'']]"
  by (simp add: performTraceroute_cmds param_host_def param_maxHops_def float64_to_int_def
        truncate_rat_def command_def Sprintf_d_def digits_of_nat.simps world0_def)

text \<open>
  Claim C1, as amended. When the probe reports a failure and has written to its standard
  error, the run fails with the error \<^verbatim>\<open>traceroute failed\<close>, which carries the
  probe's error and that text, and no result is returned. When the probe reports a failure
  and its standard error is empty, the run does not fail: it returns a result made of the
  host, the raw standard output, the time after the parsing, and as hops the records that
  the specification's wording of the parsing gives for the standard output (the first line
  and the empty lines discarded, the other lines through the parser of one line, in
  order); the command was run once.
\<close>

theorem probe_failure:
  assumes "ps ''host'' = Some (VStr host)" and "host \<noteq> []"
    and "exec_Run E (tick w) (command (param_maxHops E ps) host) = res"
    and "cmd_err res = Some err"
    and "spec_hops E (cmd_stdout res)
           (w\<lparr>tick := Suc (tick w),
              cmds := cmds w @ [command (param_maxHops E ps) host]\<rparr>) = (rs, w2)"
  shows "(cmd_stderr res \<noteq> [] \<longrightarrow>
            fst (performTraceroute E ps w) =
              Inl (Errorf (''traceroute failed: '' @ err @ '': '' @ cmd_stderr res))) \<and>
         (cmd_stderr res = [] \<longrightarrow>
            (\<exists>r ha w'. performTraceroute E ps w = (Inr (VMap r), w') \<and>
                    mapAt w' r =
                      [(''host'', VStr host), (''hops'', VMaps ha),
                       (''timestamp'', VStr (time_Format E (time_Now E (tick w2)))),
                       (''rawOutput'', VStr (cmd_stdout res))] \<and>
                    hopsOf w' (VMap r) = rs \<and>
                    tick w' = Suc (tick w2) \<and>
                    cmds w' = cmds w @ [command (param_maxHops E ps) host]))"
proof (intro conjI impI)
  from assms(1) have h: "param_host ps = host" by (simp add: param_host_def)
  {
    assume "cmd_stderr res \<noteq> []"
    with performTraceroute_fail [of ps E w res err] h assms
    show "fst (performTraceroute E ps w) =
            Inl (Errorf (''traceroute failed: '' @ err @ '': '' @ cmd_stderr res))"
      by simp
  next
    let ?w1 = "w\<lparr>tick := Suc (tick w), cmds := cmds w @ [command (param_maxHops E ps) host]\<rparr>"
    let ?m = "[(''host'', VStr host), (''hops'', VMaps (length (heap w) + length rs)),
               (''timestamp'', VStr (time_Format E (time_Now E (tick w2)))),
               (''rawOutput'', VStr (cmd_stdout res))]"
    let ?w' = "w2\<lparr>tick := Suc (tick w2),
                 heap := heap w @ map MapObj rs @
                   [ArrObj (map VMap [length (heap w) ..< length (heap w) + length rs]),
                    MapObj ?m]\<rparr>"
    assume e: "cmd_stderr res = []"
    from performTraceroute_run [of ps E w res rs w2] h assms e
    have pt: "performTraceroute E ps w = (Inr (VMap (Suc (length (heap w) + length rs))), ?w')"
      by simp
    have m: "mapAt ?w' (Suc (length (heap w) + length rs)) = ?m"
      by (simp add: mapAt_def nth_append)
    have ho: "hopsOf ?w' (VMap (Suc (length (heap w) + length rs))) = rs"
      by (rule performTraceroute_run_hops [where m = ?m]) simp_all
    from parseLines_world [of E "filter (\<lambda>l. l \<noteq> []) (tl (strings_Split (cmd_stdout res)))" ?w1]
      assms(5)
    have c: "cmds ?w' = cmds w @ [command (param_maxHops E ps) host]"
      by (simp add: spec_hops_def)
    from pt m ho c
    show "\<exists>r ha w'. performTraceroute E ps w = (Inr (VMap r), w') \<and>
                    mapAt w' r =
                      [(''host'', VStr host), (''hops'', VMaps ha),
                       (''timestamp'', VStr (time_Format E (time_Now E (tick w2)))),
                       (''rawOutput'', VStr (cmd_stdout res))] \<and>
                    hopsOf w' (VMap r) = rs \<and>
                    tick w' = Suc (tick w2) \<and>
                    cmds w' = cmds w @ [command (param_maxHops E ps) host]"
      by (intro exI [of _ "Suc (length (heap w) + length rs)"]
                exI [of _ "length (heap w) + length rs"] exI [of _ ?w']) simp
  }
qed

lemma split_example_output:
  "strings_Split example_output =
     [''traceroute to 10.0.0.1 (10.0.0.1), 5 hops max'', '' 1  10.0.0.1  1.234 ms'', '' 2  * * *'']"
  by (simp add: example_output_def)

lemma spec_hops_example:
  "spec_hops (example_env err out errout) example_output \<lparr>heap = h, tick = t, cmds = c\<rparr> =
     ([hop1, hop2], \<lparr>heap = h, tick = Suc t, cmds = c\<rparr>)"
  by (simp add: spec_hops_def split_example_output parseHopLine_responsive
        parseHopLine_unresponsive fields_ex6 fields_ex1 atoi_ex6 atoi_ex1 pf_ex6 hopMap_def
        example_env_def strings_TrimSuffix_def hop1_def hop2_def)

lemma command_example:
  "command (param_maxHops (example_env err out errout) [''host'' \<mapsto> VStr ''10.0.0.1''])
     ''10.0.0.1'' = [''traceroute'', ''-n'', ''-m'', ''30'', ''10.0.0.1'']"
  by (simp add: param_maxHops_def float64_to_int_def truncate_rat_def command_def Sprintf_d_30)

theorem probe_failure_witness:
  "fst (performTraceroute (example_env (Some ''exit status 1'') [] ''unreachable'')
          [''host'' \<mapsto> VStr ''10.0.0.1''] world0) =
     Inl (Errorf ''traceroute failed: exit status 1: unreachable'') \<and>
   (\<exists>r ha w'. performTraceroute (example_env (Some ''signal: killed'') example_output [])
                  [''host'' \<mapsto> VStr ''10.0.0.1''] world0 = (Inr (VMap r), w') \<and>
               mapAt w' r = [(''host'', VStr ''10.0.0.1''), (''hops'', VMaps ha),
                             (''timestamp'', VStr ''2''), (''rawOutput'', VStr example_output)] \<and>
               hopsOf w' (VMap r) = [hop1, hop2] \<and>
               tick w' = 3 \<and>
               cmds w' = [[''traceroute'', ''-n'', ''-m'', ''30'', ''10.0.0.1'']])"
proof -
  let ?ps = "[''host'' \<mapsto> VStr ''10.0.0.1'']"
  let ?argv = "[''traceroute'', ''-n'', ''-m'', ''30'', ''10.0.0.1'']"
  let ?E = "example_env (Some ''exit status 1'') [] ''unreachable''"
  let ?F = "example_env (Some ''signal: killed'') example_output []"
  have rE: "exec_Run ?E n argv =
            \<lparr>cmd_err = Some ''exit status 1'', cmd_stdout = [], cmd_stderr = ''unreachable''\<rparr>"
    for n argv by (simp add: example_env_def)
  have rF: "exec_Run ?F n argv =
            \<lparr>cmd_err = Some ''signal: killed'', cmd_stdout = example_output, cmd_stderr = []\<rparr>"
    for n argv by (simp add: example_env_def)
  have t1: "time_Format ?F (time_Now ?F n) = Sprintf_d (int n)" for n
    by (simp add: example_env_def)
  have "fst (performTraceroute ?E ?ps world0) =
          Inl (Errorf ''traceroute failed: exit status 1: unreachable'')"
    using probe_failure [where ps = ?ps and host = "''10.0.0.1''" and E = ?E and w = world0
          and err = "''exit status 1''" and rs = "[]"
          and ?w2.0 = "\<lparr>heap = [], tick = 1, cmds = [?argv]\<rparr>"
          and res = "\<lparr>cmd_err = Some ''exit status 1'', cmd_stdout = [],
                       cmd_stderr = ''unreachable''\<rparr>"]
    by (simp add: rE command_example world0_def spec_hops_def)
  moreover
  have "\<exists>r ha w'. performTraceroute ?F ?ps world0 = (Inr (VMap r), w') \<and>
               mapAt w' r = [(''host'', VStr ''10.0.0.1''), (''hops'', VMaps ha),
                             (''timestamp'', VStr ''2''), (''rawOutput'', VStr example_output)] \<and>
               hopsOf w' (VMap r) = [hop1, hop2] \<and>
               tick w' = 3 \<and>
               cmds w' = [?argv]"
    using probe_failure [where ps = ?ps and host = "''10.0.0.1''" and E = ?F and w = world0
          and err = "''signal: killed''" and rs = "[hop1, hop2]"
          and ?w2.0 = "\<lparr>heap = [], tick = 2, cmds = [?argv]\<rparr>"
          and res = "\<lparr>cmd_err = Some ''signal: killed'', cmd_stdout = example_output,
                       cmd_stderr = []\<rparr>"]
    by (simp add: rF t1 command_example world0_def spec_hops_example Sprintf_d_def
          digits_of_nat.simps)
  ultimately show ?thesis by (rule conjI)
qed

text \<open>
  Claim C1 as stated fails: a probe that fails without diagnostic text (here, killed by a
  signal) gives a result, with no hops, and no error.
\<close>

theorem silent_probe_failure_counterexample:
  "cmd_err (exec_Run (example_env (Some ''signal: killed'') [] []) 0
              [''traceroute'', ''-n'', ''-m'', ''30'', ''10.0.0.1'']) = Some ''signal: killed'' \<and>
   performTraceroute (example_env (Some ''signal: killed'') [] [])
          [''host'' \<mapsto> VStr ''10.0.0.1''] world0 =
     (Inr (VMap 1),
      \<lparr>heap = [ArrObj [],
               MapObj [(''host'', VStr ''10.0.0.1''), (''hops'', VMaps 0),
                       (''timestamp'', VStr ''1''), (''rawOutput'', VStr [])]],
       tick = 2,
       cmds = [[''traceroute'', ''-n'', ''-m'', ''30'', ''10.0.0.1'']]\<rparr>)"
proof -
  let ?E = "example_env (Some ''signal: killed'') [] []"
  let ?ps = "[''host'' \<mapsto> VStr ''10.0.0.1'']"
  have h: "param_host ?ps = ''10.0.0.1''" by (simp add: param_host_def)
  have m: "param_maxHops ?E ?ps = 30"
    by (simp add: param_maxHops_def float64_to_int_def truncate_rat_def)
  have r: "exec_Run ?E n argv = \<lparr>cmd_err = Some ''signal: killed'', cmd_stdout = [], cmd_stderr = []\<rparr>"
    for n argv by (simp add: example_env_def)
  have "performTraceroute ?E ?ps world0 =
          (Inr (VMap 1),
           \<lparr>heap = [ArrObj [],
               MapObj [(''host'', VStr ''10.0.0.1''), (''hops'', VMaps 0),
                       (''timestamp'', VStr (time_Format ?E (time_Now ?E 1))),
                       (''rawOutput'', VStr [])]],
            tick = 2,
            cmds = [command 30 ''10.0.0.1'']\<rparr>)"
    using performTraceroute_ok [where ps = ?ps and E = ?E and w = world0 and hops = "[]"
        and res = "\<lparr>cmd_err = Some ''signal: killed'', cmd_stdout = [], cmd_stderr = []\<rparr>"
        and ?w2.0 = "\<lparr>heap = [], tick = 1, cmds = [command 30 ''10.0.0.1'']\<rparr>"]
    by (simp add: h m r world0_def)
  then show ?thesis
    by (simp add: r command_def Sprintf_d_def digits_of_nat.simps example_env_def)
qed

section \<open>The store under the iterating entry point\<close>

















section \<open>The examples, evaluated\<close>








section \<open>The iteration state\<close>






















end
